theory Spec2Isabelle
  imports Main
begin

section \<open>Python values, the object store and exceptions\<close>

text \<open>
  The module \<^verbatim>\<open>pyprophet/util/compat.py\<close> bridges pandas and polars data frames.
  Its functions decide on the run-time class of their argument, hand objects through by
  reference and mutate keyword dictionaries, so the embedding keeps Python's objects in
  an explicit store: an object is addressed by its position in the heap, and two
  references are the identical object exactly when the addresses are equal.

  The contents of a frame and the values of options are never inspected by the module;
  they are the type parameters \<open>'pd\<close> (a pandas frame), \<open>'pl\<close> (a polars frame) and
  \<open>'v\<close> (an option value). A dictionary with string keys is a map.
\<close>

type_synonym addr = nat

type_synonym 'v kwargs = "string \<rightharpoonup> 'v"

datatype ('pd, 'pl, 'v) pyobj =
    PdDataFrame (pd_frame: 'pd)
  | PlDataFrame (pl_frame: 'pl)
  | PyStr string
  | PyInt int
  | PyDict "'v kwargs"
  | PyObject string

text \<open>
  \<open>PyObject c\<close> is an instance of any other class, \<open>c\<close> being the class's qualified name.
  \<open>isinstance\<close> is the constructor test: pandas' and polars' frame classes are unrelated,
  so no object is an instance of both. The selectors \<open>pd_frame\<close> and \<open>pl_frame\<close> are
  applied only under the matching test.
\<close>

fun type_name :: "('pd, 'pl, 'v) pyobj \<Rightarrow> string" where
  "type_name (PdDataFrame _) = ''pandas.core.frame.DataFrame''"
| "type_name (PlDataFrame _) = ''polars.dataframe.frame.DataFrame''"
| "type_name (PyStr _) = ''str''"
| "type_name (PyInt _) = ''int''"
| "type_name (PyDict _) = ''dict''"
| "type_name (PyObject c) = c"

text \<open>What the f-string \<^verbatim>\<open>{type(df)}\<close> prints: \<^verbatim>\<open><class 'str'>\<close> for a string.\<close>

definition type_repr :: "('pd, 'pl, 'v) pyobj \<Rightarrow> string" where
  "type_repr v = ''<class '' @ [CHR 0x27] @ type_name v @ [CHR 0x27] @ ''>''"

fun is_pd_DataFrame :: "('pd, 'pl, 'v) pyobj \<Rightarrow> bool" where
  "is_pd_DataFrame (PdDataFrame _) = True"
| "is_pd_DataFrame _ = False"

fun is_pl_DataFrame :: "('pd, 'pl, 'v) pyobj \<Rightarrow> bool" where
  "is_pl_DataFrame (PlDataFrame _) = True"
| "is_pl_DataFrame _ = False"

text \<open>
  Exceptions. \<open>TypeError\<close> with the module's message is the one error the module raises
  itself. \<open>KeyError\<close> is what \<^verbatim>\<open>d[k]\<close> and \<^verbatim>\<open>d.pop(k)\<close> raise on a missing key. A library
  routine may raise anything; the module never catches. \<open>BadAddress\<close> marks a reference
  to no object (or, for the interpreter's own dictionary operations, to an object that is
  no dictionary): no Python run produces it, it only makes the model total.
\<close>

datatype pyerror =
    TypeError string
  | KeyError string
  | LibraryError string
  | BadAddress addr

subsection \<open>The libraries\<close>

text \<open>
  pandas and polars are not part of the module. Their six entry points that the module
  calls are parameters of the model; each returns its result or the exception it raised.
  Keyword arguments reach a routine as the bindings of the unpacked dictionary.
\<close>

record ('pd, 'pl, 'v) pylib =
  pl_from_pandas :: "'pd \<Rightarrow> pyerror + 'pl"
  df_to_pandas :: "'pl \<Rightarrow> pyerror + 'pd"
  pl_read_csv :: "string \<Rightarrow> 'v kwargs \<Rightarrow> pyerror + 'pl"
  pd_read_csv :: "string \<Rightarrow> 'v kwargs \<Rightarrow> pyerror + 'pd"
  df_write_csv :: "'pl \<Rightarrow> string \<Rightarrow> 'v kwargs \<Rightarrow> pyerror + unit"
  df_to_csv :: "'pd \<Rightarrow> string \<Rightarrow> 'v kwargs \<Rightarrow> pyerror + unit"

text \<open>Every call into a library is recorded with the arguments it received.\<close>

datatype ('pd, 'pl, 'v) libcall =
    FromPandas 'pd
  | ToPandas 'pl
  | PlReadCsv string "'v kwargs"
  | PdReadCsv string "'v kwargs"
  | WriteCsv 'pl string "'v kwargs"
  | ToCsv 'pd string "'v kwargs"

subsection \<open>State and the exception monad\<close>

record ('pd, 'pl, 'v) pystate =
  heap :: "('pd, 'pl, 'v) pyobj list"
  calls :: "('pd, 'pl, 'v) libcall list"

type_synonym ('a, 'pd, 'pl, 'v) py =
  "('pd, 'pl, 'v) pystate \<Rightarrow> (pyerror + 'a) \<times> ('pd, 'pl, 'v) pystate"

definition py_return :: "'a \<Rightarrow> ('a, 'pd, 'pl, 'v) py" where
  "py_return x s = (Inr x, s)"

definition py_raise :: "pyerror \<Rightarrow> ('a, 'pd, 'pl, 'v) py" where
  "py_raise e s = (Inl e, s)"

definition py_bind ::
  "('a, 'pd, 'pl, 'v) py \<Rightarrow> ('a \<Rightarrow> ('b, 'pd, 'pl, 'v) py) \<Rightarrow> ('b, 'pd, 'pl, 'v) py" where
  "py_bind m f s = (case m s of (Inl e, s') \<Rightarrow> (Inl e, s') | (Inr x, s') \<Rightarrow> f x s')"

definition lookup :: "('pd, 'pl, 'v) pystate \<Rightarrow> addr \<Rightarrow> ('pd, 'pl, 'v) pyobj option" where
  "lookup s a = (if a < length (heap s) then Some (heap s ! a) else None)"

definition deref :: "addr \<Rightarrow> (('pd, 'pl, 'v) pyobj, 'pd, 'pl, 'v) py" where
  "deref a s = (case lookup s a of None \<Rightarrow> (Inl (BadAddress a), s) | Some v \<Rightarrow> (Inr v, s))"

text \<open>A new object takes the next free address; nothing already in the heap moves.\<close>

definition new_object :: "('pd, 'pl, 'v) pyobj \<Rightarrow> (addr, 'pd, 'pl, 'v) py" where
  "new_object v s = (Inr (length (heap s)), s\<lparr>heap := heap s @ [v]\<rparr>)"

definition lib_call ::
  "('pd, 'pl, 'v) libcall \<Rightarrow> pyerror + 'a \<Rightarrow> ('a, 'pd, 'pl, 'v) py" where
  "lib_call c r s = (r, s\<lparr>calls := calls s @ [c]\<rparr>)"

section \<open>Conversions\<close>

text \<open>
  \<^verbatim>\<open>
  def to_polars(df):
      if isinstance(df, pd.DataFrame):
          return pl.from_pandas(df)
      elif isinstance(df, pl.DataFrame):
          return df
      else:
          raise TypeError(f"Expected pd.DataFrame or pl.DataFrame, got {type(df)}")
  \<close>
\<close>

definition to_polars :: "('pd, 'pl, 'v) pylib \<Rightarrow> addr \<Rightarrow> (addr, 'pd, 'pl, 'v) py" where
  "to_polars L df =
     py_bind (deref df) (\<lambda>v.
       if is_pd_DataFrame v then
         py_bind (lib_call (FromPandas (pd_frame v)) (pl_from_pandas L (pd_frame v))) (\<lambda>g.
         new_object (PlDataFrame g))
       else if is_pl_DataFrame v then
         py_return df
       else
         py_raise (TypeError (''Expected pd.DataFrame or pl.DataFrame, got '' @ type_repr v)))"

text \<open>
  \<^verbatim>\<open>
  def to_pandas(df):
      if isinstance(df, pl.DataFrame):
          return df.to_pandas()
      elif isinstance(df, pd.DataFrame):
          return df
      else:
          raise TypeError(f"Expected pd.DataFrame or pl.DataFrame, got {type(df)}")
  \<close>
\<close>

definition to_pandas :: "('pd, 'pl, 'v) pylib \<Rightarrow> addr \<Rightarrow> (addr, 'pd, 'pl, 'v) py" where
  "to_pandas L df =
     py_bind (deref df) (\<lambda>v.
       if is_pl_DataFrame v then
         py_bind (lib_call (ToPandas (pl_frame v)) (df_to_pandas L (pl_frame v))) (\<lambda>f.
         new_object (PdDataFrame f))
       else if is_pd_DataFrame v then
         py_return df
       else
         py_raise (TypeError (''Expected pd.DataFrame or pl.DataFrame, got '' @ type_repr v)))"

text \<open>\<^verbatim>\<open>def ensure_polars(df): return to_polars(df)\<close>\<close>

definition ensure_polars :: "('pd, 'pl, 'v) pylib \<Rightarrow> addr \<Rightarrow> (addr, 'pd, 'pl, 'v) py" where
  "ensure_polars L df = to_polars L df"

text \<open>\<^verbatim>\<open>def ensure_pandas(df): return to_pandas(df)\<close>\<close>

definition ensure_pandas :: "('pd, 'pl, 'v) pylib \<Rightarrow> addr \<Rightarrow> (addr, 'pd, 'pl, 'v) py" where
  "ensure_pandas L df = to_pandas L df"

section \<open>Dictionaries in the store\<close>

text \<open>
  The operations of \<^verbatim>\<open>dict\<close> that the module uses, on a dictionary object at address
  \<open>d\<close>. They mutate the object in place.
\<close>

definition deref_dict :: "addr \<Rightarrow> ('v kwargs, 'pd, 'pl, 'v) py" where
  "deref_dict d =
     py_bind (deref d) (\<lambda>v. case v of PyDict m \<Rightarrow> py_return m | _ \<Rightarrow> py_raise (BadAddress d))"

definition assign :: "addr \<Rightarrow> ('pd, 'pl, 'v) pyobj \<Rightarrow> (unit, 'pd, 'pl, 'v) py" where
  "assign a v s = (Inr (), s\<lparr>heap := (heap s)[a := v]\<rparr>)"

text \<open>\<^verbatim>\<open>k in d\<close>\<close>

definition dict_contains :: "addr \<Rightarrow> string \<Rightarrow> (bool, 'pd, 'pl, 'v) py" where
  "dict_contains d k = py_bind (deref_dict d) (\<lambda>m. py_return (m k \<noteq> None))"

text \<open>\<^verbatim>\<open>d[k]\<close>\<close>

definition dict_getitem :: "addr \<Rightarrow> string \<Rightarrow> ('v, 'pd, 'pl, 'v) py" where
  "dict_getitem d k =
     py_bind (deref_dict d) (\<lambda>m.
       case m k of None \<Rightarrow> py_raise (KeyError k) | Some x \<Rightarrow> py_return x)"

text \<open>\<^verbatim>\<open>d[k] = x\<close>\<close>

definition dict_setitem :: "addr \<Rightarrow> string \<Rightarrow> 'v \<Rightarrow> (unit, 'pd, 'pl, 'v) py" where
  "dict_setitem d k x = py_bind (deref_dict d) (\<lambda>m. assign d (PyDict (m(k \<mapsto> x))))"

text \<open>\<^verbatim>\<open>d.pop(k)\<close>, with no default: a missing key raises.\<close>

definition dict_pop :: "addr \<Rightarrow> string \<Rightarrow> ('v, 'pd, 'pl, 'v) py" where
  "dict_pop d k =
     py_bind (deref_dict d) (\<lambda>m.
       case m k of
         None \<Rightarrow> py_raise (KeyError k)
       | Some x \<Rightarrow> py_bind (assign d (PyDict (m(k := None)))) (\<lambda>_. py_return x))"

text \<open>\<^verbatim>\<open>d.update(other)\<close>: the bindings of \<open>other\<close> are written over those of \<open>d\<close>.\<close>

definition dict_update :: "addr \<Rightarrow> addr \<Rightarrow> (unit, 'pd, 'pl, 'v) py" where
  "dict_update d other =
     py_bind (deref_dict d) (\<lambda>m.
     py_bind (deref_dict other) (\<lambda>m'.
     assign d (PyDict (m ++ m'))))"

section \<open>Reading and writing CSV\<close>

text \<open>
  A function declared with \<^verbatim>\<open>**kwargs\<close> receives its surplus keyword arguments in a
  dictionary that the interpreter creates for this call: the model takes the keyword
  bindings \<open>kw\<close> and allocates that dictionary first. A call \<^verbatim>\<open>f(path, **d)\<close> passes the
  bindings of \<open>d\<close> on (\<open>deref_dict\<close>), not the object \<open>d\<close>.

  \<^verbatim>\<open>
  def compatible_read_csv(filepath, use_polars=True, **kwargs):
      if use_polars:
          return pl.read_csv(filepath, **kwargs)
      else:
          return pd.read_csv(filepath, **kwargs)
  \<close>
\<close>

definition compatible_read_csv ::
  "('pd, 'pl, 'v) pylib \<Rightarrow> string \<Rightarrow> bool \<Rightarrow> 'v kwargs \<Rightarrow> (addr, 'pd, 'pl, 'v) py" where
  "compatible_read_csv L filepath use_polars kw =
     py_bind (new_object (PyDict kw)) (\<lambda>kwargs.
       if use_polars then
         py_bind (deref_dict kwargs) (\<lambda>m.
         py_bind (lib_call (PlReadCsv filepath m) (pl_read_csv L filepath m)) (\<lambda>g.
         new_object (PlDataFrame g)))
       else
         py_bind (deref_dict kwargs) (\<lambda>m.
         py_bind (lib_call (PdReadCsv filepath m) (pd_read_csv L filepath m)) (\<lambda>f.
         new_object (PdDataFrame f))))"

text \<open>
  \<^verbatim>\<open>
  def compatible_write_csv(df, filepath, **kwargs):
      if isinstance(df, pl.DataFrame):
          # Map pandas-style kwargs to polars equivalents
          polars_kwargs = {}
          if 'sep' in kwargs:
              polars_kwargs['separator'] = kwargs['sep']
              kwargs.pop('sep')
          if 'index' in kwargs:
              # Polars doesn't have index concept, remove this parameter
              kwargs.pop('index')
          polars_kwargs.update(kwargs)
          df.write_csv(filepath, **polars_kwargs)
      elif isinstance(df, pd.DataFrame):
          df.to_csv(filepath, **kwargs)
      else:
          raise TypeError(f"Expected pd.DataFrame or pl.DataFrame, got {type(df)}")
  \<close>
\<close>

definition compatible_write_csv ::
  "('pd, 'pl, 'v) pylib \<Rightarrow> addr \<Rightarrow> string \<Rightarrow> 'v kwargs \<Rightarrow> (unit, 'pd, 'pl, 'v) py" where
  "compatible_write_csv L df filepath kw =
     py_bind (new_object (PyDict kw)) (\<lambda>kwargs.
     py_bind (deref df) (\<lambda>v.
       if is_pl_DataFrame v then
         py_bind (new_object (PyDict Map.empty)) (\<lambda>polars_kwargs.
         py_bind (dict_contains kwargs ''sep'') (\<lambda>has_sep.
         py_bind (if has_sep then
                    py_bind (dict_getitem kwargs ''sep'') (\<lambda>x.
                    py_bind (dict_setitem polars_kwargs ''separator'' x) (\<lambda>_.
                    py_bind (dict_pop kwargs ''sep'') (\<lambda>_.
                    py_return ())))
                  else py_return ()) (\<lambda>_.
         py_bind (dict_contains kwargs ''index'') (\<lambda>has_index.
         py_bind (if has_index then
                    py_bind (dict_pop kwargs ''index'') (\<lambda>_.
                    py_return ())
                  else py_return ()) (\<lambda>_.
         py_bind (dict_update polars_kwargs kwargs) (\<lambda>_.
         py_bind (deref_dict polars_kwargs) (\<lambda>m.
         lib_call (WriteCsv (pl_frame v) filepath m) (df_write_csv L (pl_frame v) filepath m))))))))
       else if is_pd_DataFrame v then
         py_bind (deref_dict kwargs) (\<lambda>m.
         lib_call (ToCsv (pd_frame v) filepath m) (df_to_csv L (pd_frame v) filepath m))
       else
         py_raise (TypeError (''Expected pd.DataFrame or pl.DataFrame, got '' @ type_repr v))))"

text \<open>
  The statements of the polars branch that come before \<^verbatim>\<open>polars_kwargs.update(kwargs)\<close>,
  on their own, so that the dictionaries can be looked at between the two writes:
  \<^verbatim>\<open>
          polars_kwargs = {}
          if 'sep' in kwargs:
              polars_kwargs['separator'] = kwargs['sep']
              kwargs.pop('sep')
          if 'index' in kwargs:
              kwargs.pop('index')
  \<close>
  The result is the reference \<open>polars_kwargs\<close>. That \<open>compatible_write_csv\<close> is these
  statements followed by the update and the call of the writer is proved below
  (\<open>write_csv_polars_stages\<close>).
\<close>

definition polars_kwargs_before_update :: "addr \<Rightarrow> (addr, 'pd, 'pl, 'v) py" where
  "polars_kwargs_before_update kwargs =
     py_bind (new_object (PyDict Map.empty)) (\<lambda>polars_kwargs.
     py_bind (dict_contains kwargs ''sep'') (\<lambda>has_sep.
     py_bind (if has_sep then
                py_bind (dict_getitem kwargs ''sep'') (\<lambda>x.
                py_bind (dict_setitem polars_kwargs ''separator'' x) (\<lambda>_.
                py_bind (dict_pop kwargs ''sep'') (\<lambda>_.
                py_return ())))
              else py_return ()) (\<lambda>_.
     py_bind (dict_contains kwargs ''index'') (\<lambda>has_index.
     py_bind (if has_index then
                py_bind (dict_pop kwargs ''index'') (\<lambda>_.
                py_return ())
              else py_return ()) (\<lambda>_.
     py_return polars_kwargs)))))"

section \<open>A concrete instance\<close>

text \<open>
  For running the model: frames are lists of named integer columns, option values are
  strings, the conversions hand the columns over and the readers and writers succeed.
\<close>

type_synonym frame = "(string \<times> int list) list"

definition demo_lib :: "(frame, frame, string) pylib" where
  "demo_lib =
     \<lparr> pl_from_pandas = Inr, df_to_pandas = Inr,
       pl_read_csv = (\<lambda>_ _. Inr [(''x'', [1, 2, 3])]),
       pd_read_csv = (\<lambda>_ _. Inr [(''x'', [1, 2, 3])]),
       df_write_csv = (\<lambda>_ _ _. Inr ()),
       df_to_csv = (\<lambda>_ _ _. Inr ()) \<rparr>"

text \<open>
  A store with a pandas frame at address 0, a polars frame at 1, the string
  \<^verbatim>\<open>"invalid"\<close> at 2, the integer 123 at 3 and the caller's dictionary
  \<^verbatim>\<open>{"sep": ";", "index": "False"}\<close> at 4.
\<close>

definition demo_options :: "string kwargs" where
  "demo_options = [''sep'' \<mapsto> '';'', ''index'' \<mapsto> ''False'']"

definition demo_state :: "(frame, frame, string) pystate" where
  "demo_state =
     \<lparr> heap = [PdDataFrame [(''x'', [1, 2, 3])], PlDataFrame [(''x'', [1, 2, 3])],
               PyStr ''invalid'', PyInt 123, PyDict demo_options],
       calls = [] \<rparr>"

text \<open>The caller supplies both \<^verbatim>\<open>sep\<close> and \<^verbatim>\<open>separator\<close>.\<close>

definition both_options :: "string kwargs" where
  "both_options = [''sep'' \<mapsto> '';'', ''separator'' \<mapsto> '','']"

text \<open>The keyword arguments a recorded library call received (none for a conversion).\<close>

fun libcall_kwargs :: "('pd, 'pl, 'v) libcall \<Rightarrow> 'v kwargs" where
  "libcall_kwargs (FromPandas _) = Map.empty"
| "libcall_kwargs (ToPandas _) = Map.empty"
| "libcall_kwargs (PlReadCsv _ m) = m"
| "libcall_kwargs (PdReadCsv _ m) = m"
| "libcall_kwargs (WriteCsv _ _ m) = m"
| "libcall_kwargs (ToCsv _ _ m) = m"

section \<open>What each function does, case by case\<close>

lemmas py_defs =
  py_return_def py_raise_def py_bind_def deref_def new_object_def lib_call_def
  deref_dict_def assign_def dict_contains_def dict_getitem_def dict_setitem_def
  dict_pop_def dict_update_def

lemma lookup_demo_state:
  "lookup demo_state 0 = Some (PdDataFrame [(''x'', [1, 2, 3])])"
  "lookup demo_state 1 = Some (PlDataFrame [(''x'', [1, 2, 3])])"
  "lookup demo_state 2 = Some (PyStr ''invalid'')"
  "lookup demo_state 3 = Some (PyInt 123)"
  "lookup demo_state 4 = Some (PyDict demo_options)"
  by (simp_all add: lookup_def demo_state_def)

lemma to_polars_passthrough:
  "lookup s df = Some (PlDataFrame g) \<Longrightarrow> to_polars L df s = (Inr df, s)"
  by (simp add: to_polars_def py_defs)

lemma to_pandas_passthrough:
  "lookup s df = Some (PdDataFrame f) \<Longrightarrow> to_pandas L df s = (Inr df, s)"
  by (simp add: to_pandas_def py_defs)

text \<open>
  A frame of the other library is handed to that library's converter; what the converter
  returns is stored as a new object, what it raises is raised.
\<close>

lemma to_polars_delegates:
  "lookup s df = Some (PdDataFrame f) \<Longrightarrow>
   to_polars L df s =
     (case pl_from_pandas L f of
        Inl e \<Rightarrow> (Inl e, s\<lparr>calls := calls s @ [FromPandas f]\<rparr>)
      | Inr g \<Rightarrow> (Inr (length (heap s)),
                  s\<lparr>heap := heap s @ [PlDataFrame g], calls := calls s @ [FromPandas f]\<rparr>))"
  by (simp add: to_polars_def py_defs split: sum.splits)

lemma to_pandas_delegates:
  "lookup s df = Some (PlDataFrame g) \<Longrightarrow>
   to_pandas L df s =
     (case df_to_pandas L g of
        Inl e \<Rightarrow> (Inl e, s\<lparr>calls := calls s @ [ToPandas g]\<rparr>)
      | Inr f \<Rightarrow> (Inr (length (heap s)),
                  s\<lparr>heap := heap s @ [PdDataFrame f], calls := calls s @ [ToPandas g]\<rparr>))"
  by (simp add: to_pandas_def py_defs split: sum.splits)

text \<open>
  Hence a round trip through the other representation yields whatever the two library
  converters yield in turn; the module adds nothing of its own to the frame.
\<close>

lemma round_trip_delegates:
  assumes "lookup s df = Some (PlDataFrame g)"
    and "df_to_pandas L g = Inr f" and "pl_from_pandas L f = Inr g'"
  shows "to_pandas L df s =
           (Inr (length (heap s)),
            s\<lparr>heap := heap s @ [PdDataFrame f], calls := calls s @ [ToPandas g]\<rparr>)"
    and "to_polars L (length (heap s))
           (s\<lparr>heap := heap s @ [PdDataFrame f], calls := calls s @ [ToPandas g]\<rparr>) =
           (Inr (Suc (length (heap s))),
            s\<lparr>heap := heap s @ [PdDataFrame f, PlDataFrame g'],
              calls := calls s @ [ToPandas g, FromPandas f]\<rparr>)"
  using assms by (simp_all add: to_pandas_delegates to_polars_def py_defs lookup_def)

lemma to_polars_unsupported:
  "lookup s df = Some v \<Longrightarrow> \<not> is_pd_DataFrame v \<Longrightarrow> \<not> is_pl_DataFrame v \<Longrightarrow>
   to_polars L df s =
     (Inl (TypeError (''Expected pd.DataFrame or pl.DataFrame, got '' @ type_repr v)), s)"
  by (simp add: to_polars_def py_defs)

lemma to_pandas_unsupported:
  "lookup s df = Some v \<Longrightarrow> \<not> is_pd_DataFrame v \<Longrightarrow> \<not> is_pl_DataFrame v \<Longrightarrow>
   to_pandas L df s =
     (Inl (TypeError (''Expected pd.DataFrame or pl.DataFrame, got '' @ type_repr v)), s)"
  by (simp add: to_pandas_def py_defs)

lemma lookup_after_new:
  "lookup s a = Some v \<Longrightarrow> lookup (s\<lparr>heap := heap s @ xs\<rparr>) a = Some v"
  by (auto simp: lookup_def nth_append split: if_splits)

lemma lookup_new_none:
  "lookup s a = None \<Longrightarrow> lookup (s\<lparr>heap := heap s @ [x]\<rparr>) a = (if a = length (heap s) then Some x else None)"
  by (auto simp: lookup_def nth_append split: if_splits)

lemma write_csv_unsupported:
  "lookup s df = Some v \<Longrightarrow> \<not> is_pd_DataFrame v \<Longrightarrow> \<not> is_pl_DataFrame v \<Longrightarrow>
   compatible_write_csv L df filepath kw s =
     (Inl (TypeError (''Expected pd.DataFrame or pl.DataFrame, got '' @ type_repr v)),
      s\<lparr>heap := heap s @ [PyDict kw]\<rparr>)"
  by (auto simp: compatible_write_csv_def py_defs lookup_def nth_append split: if_splits)

lemma write_csv_pandas:
  "lookup s df = Some (PdDataFrame f) \<Longrightarrow>
   compatible_write_csv L df filepath kw s =
     (df_to_csv L f filepath kw,
      s\<lparr>heap := heap s @ [PyDict kw], calls := calls s @ [ToCsv f filepath kw]\<rparr>)"
  by (auto simp: compatible_write_csv_def py_defs lookup_def nth_append split: if_splits)

text \<open>
  The polars branch. \<open>polars_kwargs\<close> first holds the value of \<^verbatim>\<open>sep\<close> under
  \<^verbatim>\<open>separator\<close>, then the caller's remaining options are written over it.
\<close>

lemma write_csv_polars:
  assumes "lookup s df = Some (PlDataFrame g)"
  shows "compatible_write_csv L df filepath kw s =
    (let rest = kw(''sep'' := None, ''index'' := None);
         m = (case kw ''sep'' of None \<Rightarrow> Map.empty | Some x \<Rightarrow> [''separator'' \<mapsto> x]) ++ rest
     in (df_write_csv L g filepath m,
         s\<lparr>heap := heap s @ [PyDict rest, PyDict m],
           calls := calls s @ [WriteCsv g filepath m]\<rparr>))"
proof -
  have a: "kw ''sep'' = None \<Longrightarrow> kw(''sep'' := None, ''index'' := None) = kw(''index'' := None)"
    by (simp add: fun_upd_idem)
  have b: "kw ''index'' = None \<Longrightarrow> kw(''sep'' := None, ''index'' := None) = kw(''sep'' := None)"
    by (simp add: fun_upd_idem)
  show ?thesis
    using assms
    by (auto simp: compatible_write_csv_def py_defs lookup_def nth_append Let_def
          list_update_append a b fun_upd_idem split: if_splits option.splits)
qed

text \<open>Whatever the argument, the call only adds objects to the heap.\<close>

lemma write_csv_dangling:
  "lookup s df = None \<Longrightarrow>
   heap (snd (compatible_write_csv L df filepath kw s)) = heap s @ [PyDict kw]"
  by (auto simp: compatible_write_csv_def py_defs lookup_def nth_append split: if_splits)

lemma write_csv_heap_extends:
  "\<exists>xs. heap (snd (compatible_write_csv L df filepath kw s)) = heap s @ xs"
proof (cases "lookup s df")
  case None
  then show ?thesis by (simp add: write_csv_dangling)
next
  case (Some v)
  show ?thesis
  proof (cases v)
    case (PdDataFrame f)
    with Some show ?thesis by (simp add: write_csv_pandas)
  next
    case (PlDataFrame g)
    with Some show ?thesis by (simp add: write_csv_polars Let_def)
  qed (use Some in \<open>simp_all add: write_csv_unsupported\<close>)
qed

text \<open>Sequencing is associative, and returning a value does nothing else.\<close>

lemma py_bind_assoc:
  "py_bind (py_bind m f) h = py_bind m (\<lambda>x. py_bind (f x) h)"
  by (auto simp: py_bind_def fun_eq_iff split: prod.splits sum.splits)

lemma py_return_bind: "py_bind (py_return x) f = f x"
  by (simp add: py_bind_def py_return_def fun_eq_iff)

text \<open>
  The polars branch in two stages: the statements before the update, then the update and
  the call of the writer.
\<close>

lemma write_csv_polars_stages:
  "lookup s df = Some (PlDataFrame g) \<Longrightarrow>
   compatible_write_csv L df filepath kw s =
     py_bind (polars_kwargs_before_update (length (heap s))) (\<lambda>polars_kwargs.
     py_bind (dict_update polars_kwargs (length (heap s))) (\<lambda>_.
     py_bind (deref_dict polars_kwargs) (\<lambda>m.
     lib_call (WriteCsv g filepath m) (df_write_csv L g filepath m))))
       (s\<lparr>heap := heap s @ [PyDict kw]\<rparr>)"
proof -
  assume df: "lookup s df = Some (PlDataFrame g)"
  have "compatible_write_csv L df filepath kw s =
     py_bind (new_object (PyDict kw)) (\<lambda>kwargs.
     py_bind (deref df) (\<lambda>v.
       if is_pl_DataFrame v then
         py_bind (polars_kwargs_before_update kwargs) (\<lambda>polars_kwargs.
         py_bind (dict_update polars_kwargs kwargs) (\<lambda>_.
         py_bind (deref_dict polars_kwargs) (\<lambda>m.
         lib_call (WriteCsv (pl_frame v) filepath m) (df_write_csv L (pl_frame v) filepath m))))
       else if is_pd_DataFrame v then
         py_bind (deref_dict kwargs) (\<lambda>m.
         lib_call (ToCsv (pd_frame v) filepath m) (df_to_csv L (pd_frame v) filepath m))
       else
         py_raise (TypeError (''Expected pd.DataFrame or pl.DataFrame, got '' @ type_repr v)))) s"
    by (simp only: compatible_write_csv_def polars_kwargs_before_update_def
          py_bind_assoc py_return_bind)
  also have "\<dots> =
     py_bind (polars_kwargs_before_update (length (heap s))) (\<lambda>polars_kwargs.
     py_bind (dict_update polars_kwargs (length (heap s))) (\<lambda>_.
     py_bind (deref_dict polars_kwargs) (\<lambda>m.
     lib_call (WriteCsv g filepath m) (df_write_csv L g filepath m))))
       (s\<lparr>heap := heap s @ [PyDict kw]\<rparr>)"
    using df
    by (simp add: py_bind_def [where m = "new_object (PyDict kw)"]
          py_bind_def [where m = "deref df"] new_object_def deref_def lookup_def nth_append
          split: if_splits)
  finally show ?thesis .
qed

text \<open>
  With both keys supplied: after the first stage \<open>polars_kwargs\<close> holds the value of
  \<^verbatim>\<open>sep\<close> under \<^verbatim>\<open>separator\<close> and nothing else, and \<open>kwargs\<close> has lost \<^verbatim>\<open>sep\<close> and
  \<^verbatim>\<open>index\<close>; the update then writes the remaining options over \<open>polars_kwargs\<close>.
\<close>

lemma before_update_both:
  "kw ''sep'' = Some x \<Longrightarrow>
   polars_kwargs_before_update (length (heap s)) (s\<lparr>heap := heap s @ [PyDict kw]\<rparr>) =
     (Inr (Suc (length (heap s))),
      s\<lparr>heap := heap s @ [PyDict (kw(''sep'' := None, ''index'' := None)),
                           PyDict [''separator'' \<mapsto> x]]\<rparr>)"
  by (auto simp: polars_kwargs_before_update_def py_defs lookup_def nth_append
        list_update_append fun_upd_idem split: if_splits option.splits)

lemma update_after_first_stage:
  "dict_update (Suc (length (heap s))) (length (heap s))
     (s\<lparr>heap := heap s @ [PyDict rest, PyDict first]\<rparr>) =
     (Inr (), s\<lparr>heap := heap s @ [PyDict rest, PyDict (first ++ rest)]\<rparr>)"
  by (simp add: py_defs lookup_def nth_append list_update_append)

lemma calls_demo_state: "calls demo_state = []"
  by (simp add: demo_state_def)

section \<open>Conversions: passthrough, errors, aliases\<close>

text \<open>
  C2. A value already in the requested representation is returned as the identical
  object: \<open>to_pandas\<close> of a reference to a pandas frame returns that same reference, and
  \<open>to_polars\<close> of a reference to a polars frame returns that same reference. The state is
  the same afterwards: no object is created (no copy) and no library is called.
\<close>

theorem passthrough_returns_same_object:
  "(lookup s df = Some (PdDataFrame f) \<longrightarrow> to_pandas L df s = (Inr df, s)) \<and>
   (lookup s df = Some (PlDataFrame g) \<longrightarrow> to_polars L df s = (Inr df, s))"
  by (simp add: to_pandas_passthrough to_polars_passthrough)

theorem passthrough_returns_same_object_witness:
  "to_pandas demo_lib 0 demo_state = (Inr 0, demo_state) \<and>
   to_polars demo_lib 1 demo_state = (Inr 1, demo_state)"
proof
  show "to_pandas demo_lib 0 demo_state = (Inr 0, demo_state)"
    using passthrough_returns_same_object [where s = demo_state and df = 0 and L = demo_lib]
      lookup_demo_state(1)
    by blast
  show "to_polars demo_lib 1 demo_state = (Inr 1, demo_state)"
    using passthrough_returns_same_object [where s = demo_state and df = 1 and L = demo_lib]
      lookup_demo_state(2)
    by blast
qed

text \<open>
  C3. For a value that is neither a pandas nor a polars frame, \<open>to_polars\<close>, \<open>to_pandas\<close>
  and \<open>compatible_write_csv\<close> each raise \<open>TypeError\<close> with the message
  \<^verbatim>\<open>Expected pd.DataFrame or pl.DataFrame, got <type of the value>\<close>. They return no
  value, create no frame and call no library.
\<close>

theorem unsupported_type_raises_TypeError:
  assumes "lookup s df = Some v" and "\<not> is_pd_DataFrame v" and "\<not> is_pl_DataFrame v"
  shows "to_polars L df s =
           (Inl (TypeError (''Expected pd.DataFrame or pl.DataFrame, got '' @ type_repr v)), s) \<and>
         to_pandas L df s =
           (Inl (TypeError (''Expected pd.DataFrame or pl.DataFrame, got '' @ type_repr v)), s) \<and>
         fst (compatible_write_csv L df filepath kw s) =
           Inl (TypeError (''Expected pd.DataFrame or pl.DataFrame, got '' @ type_repr v)) \<and>
         calls (snd (compatible_write_csv L df filepath kw s)) = calls s"
  using assms
  by (simp add: to_polars_unsupported to_pandas_unsupported write_csv_unsupported)

theorem unsupported_type_raises_TypeError_witness:
  "to_polars demo_lib 2 demo_state =
     (Inl (TypeError ''Expected pd.DataFrame or pl.DataFrame, got <class 'str'>''), demo_state) \<and>
   to_pandas demo_lib 2 demo_state =
     (Inl (TypeError ''Expected pd.DataFrame or pl.DataFrame, got <class 'str'>''), demo_state) \<and>
   fst (compatible_write_csv demo_lib 2 ''out.csv'' demo_options demo_state) =
     Inl (TypeError ''Expected pd.DataFrame or pl.DataFrame, got <class 'str'>'') \<and>
   calls (snd (compatible_write_csv demo_lib 2 ''out.csv'' demo_options demo_state)) = []"
  using unsupported_type_raises_TypeError
          [where s = demo_state and df = 2 and v = "PyStr ''invalid''" and L = demo_lib
             and filepath = "''out.csv''" and kw = demo_options]
  by (simp add: lookup_demo_state calls_demo_state type_repr_def)

text \<open>The integer of the module's own test: \<^verbatim>\<open>to_pandas(123)\<close>.\<close>

lemma to_pandas_of_int:
  "fst (to_pandas demo_lib 3 demo_state) =
     Inl (TypeError ''Expected pd.DataFrame or pl.DataFrame, got <class 'int'>'')"
  by (simp add: to_pandas_unsupported [where v = "PyInt 123"] lookup_demo_state type_repr_def)

text \<open>
  C4. \<open>ensure_polars\<close> behaves as \<open>to_polars\<close> and \<open>ensure_pandas\<close> as \<open>to_pandas\<close>, on every
  input and in every state: the same returned reference or the same error with the same
  message, and the same state afterwards.
\<close>

theorem ensure_aliases_agree:
  "ensure_polars L df s = to_polars L df s \<and> ensure_pandas L df s = to_pandas L df s"
  by (simp add: ensure_polars_def ensure_pandas_def)

section \<open>Reading\<close>

text \<open>
  C5. \<open>compatible_read_csv\<close> makes exactly one library call, chosen by \<open>use_polars\<close> alone:
  polars' reader when it is true, pandas' reader when it is false. The reader receives
  the path and the caller's options as they are. What the reader raises is raised; the
  frame it returns is the object returned.
\<close>

theorem read_csv_dispatch_verbatim:
  "calls (snd (compatible_read_csv L filepath use_polars kw s)) =
     calls s @ [if use_polars then PlReadCsv filepath kw else PdReadCsv filepath kw] \<and>
   (if use_polars then
      (case pl_read_csv L filepath kw of
         Inl e \<Rightarrow> fst (compatible_read_csv L filepath use_polars kw s) = Inl e
       | Inr g \<Rightarrow> (\<exists>a. fst (compatible_read_csv L filepath use_polars kw s) = Inr a \<and>
                     lookup (snd (compatible_read_csv L filepath use_polars kw s)) a =
                       Some (PlDataFrame g)))
    else
      (case pd_read_csv L filepath kw of
         Inl e \<Rightarrow> fst (compatible_read_csv L filepath use_polars kw s) = Inl e
       | Inr f \<Rightarrow> (\<exists>a. fst (compatible_read_csv L filepath use_polars kw s) = Inr a \<and>
                     lookup (snd (compatible_read_csv L filepath use_polars kw s)) a =
                       Some (PdDataFrame f))))"
  by (auto simp: compatible_read_csv_def py_defs lookup_def nth_append split: sum.splits)

section \<open>Writing\<close>

text \<open>
  C6. For a pandas frame, \<open>compatible_write_csv\<close> calls pandas' writer on that frame with
  the path and with the caller's options exactly as given; the writer's outcome is the
  outcome of the call.
\<close>

theorem pandas_write_options_verbatim:
  assumes "lookup s df = Some (PdDataFrame f)"
  shows "calls (snd (compatible_write_csv L df filepath kw s)) =
           calls s @ [ToCsv f filepath kw] \<and>
         fst (compatible_write_csv L df filepath kw s) = df_to_csv L f filepath kw"
  using assms by (simp add: write_csv_pandas)

theorem pandas_write_options_verbatim_witness:
  "calls (snd (compatible_write_csv demo_lib 0 ''test2.csv'' [''index'' \<mapsto> ''False''] demo_state)) =
     [ToCsv [(''x'', [1, 2, 3])] ''test2.csv'' [''index'' \<mapsto> ''False'']] \<and>
   fst (compatible_write_csv demo_lib 0 ''test2.csv'' [''index'' \<mapsto> ''False''] demo_state) = Inr ()"
  using pandas_write_options_verbatim
          [OF lookup_demo_state(1), where L = demo_lib and filepath = "''test2.csv''"
             and kw = "[''index'' \<mapsto> ''False'']"]
  by (simp add: calls_demo_state demo_lib_def)

text \<open>
  C1, as the code has it. For a polars frame, \<open>compatible_write_csv\<close> calls polars'
  writer with a map \<open>m\<close> in which \<^verbatim>\<open>sep\<close> and \<^verbatim>\<open>index\<close> are never present, every other
  key the caller supplied keeps its value (\<^verbatim>\<open>separator\<close> included), and \<^verbatim>\<open>separator\<close>
  carries the value of the caller's \<^verbatim>\<open>sep\<close> whenever the caller did not supply
  \<^verbatim>\<open>separator\<close> as well.
\<close>

theorem polars_write_translates_options:
  assumes "lookup s df = Some (PlDataFrame g)"
  shows "\<exists>m. calls (snd (compatible_write_csv L df filepath kw s)) =
               calls s @ [WriteCsv g filepath m] \<and>
             fst (compatible_write_csv L df filepath kw s) = df_write_csv L g filepath m \<and>
             m ''sep'' = None \<and> m ''index'' = None \<and>
             (kw ''separator'' = None \<longrightarrow> m ''separator'' = kw ''sep'') \<and>
             (\<forall>k. k \<noteq> ''sep'' \<and> k \<noteq> ''index'' \<and> kw k \<noteq> None \<longrightarrow> m k = kw k)"
proof -
  let ?rest = "kw(''sep'' := None, ''index'' := None)"
  let ?m = "(case kw ''sep'' of None \<Rightarrow> Map.empty | Some x \<Rightarrow> [''separator'' \<mapsto> x]) ++ ?rest"
  have run: "compatible_write_csv L df filepath kw s =
      (df_write_csv L g filepath ?m,
       s\<lparr>heap := heap s @ [PyDict ?rest, PyDict ?m], calls := calls s @ [WriteCsv g filepath ?m]\<rparr>)"
    using write_csv_polars [OF assms, of L filepath kw] by (simp add: Let_def)
  have "?m ''sep'' = None" and "?m ''index'' = None"
    by (simp_all add: map_add_def split: option.splits)
  moreover have "kw ''separator'' = None \<longrightarrow> ?m ''separator'' = kw ''sep''"
    by (simp add: map_add_def split: option.splits)
  moreover have "\<forall>k. k \<noteq> ''sep'' \<and> k \<noteq> ''index'' \<and> kw k \<noteq> None \<longrightarrow> ?m k = kw k"
    by (auto simp: map_add_def split: option.splits)
  ultimately show ?thesis
    using run by (intro exI [of _ ?m]) simp
qed

text \<open>The scenario \<^verbatim>\<open>{"sep": ";", "index": False}\<close>.\<close>

theorem polars_write_translates_options_witness:
  "\<exists>m. calls (snd (compatible_write_csv demo_lib 1 ''out.csv'' demo_options demo_state)) =
          [WriteCsv [(''x'', [1, 2, 3])] ''out.csv'' m] \<and>
        m ''sep'' = None \<and> m ''index'' = None \<and> m ''separator'' = Some '';''"
proof -
  have sep: "demo_options ''separator'' = None" "demo_options ''sep'' = Some '';''"
    by (simp_all add: demo_options_def)
  from polars_write_translates_options
         [OF lookup_demo_state(2), of demo_lib "''out.csv''" demo_options]
  obtain m where m:
    "calls (snd (compatible_write_csv demo_lib 1 ''out.csv'' demo_options demo_state)) =
       calls demo_state @ [WriteCsv [(''x'', [1, 2, 3])] ''out.csv'' m] \<and>
     fst (compatible_write_csv demo_lib 1 ''out.csv'' demo_options demo_state) =
       df_write_csv demo_lib [(''x'', [1, 2, 3])] ''out.csv'' m \<and>
     m ''sep'' = None \<and> m ''index'' = None \<and>
     (demo_options ''separator'' = None \<longrightarrow> m ''separator'' = demo_options ''sep'') \<and>
     (\<forall>k. k \<noteq> ''sep'' \<and> k \<noteq> ''index'' \<and> demo_options k \<noteq> None \<longrightarrow> m k = demo_options k)" ..
  from m have c: "calls (snd (compatible_write_csv demo_lib 1 ''out.csv'' demo_options demo_state)) =
       [WriteCsv [(''x'', [1, 2, 3])] ''out.csv'' m]"
    by (simp only: calls_demo_state append_Nil)
  from m sep have "m ''sep'' = None" "m ''index'' = None" "m ''separator'' = Some '';''"
    by (simp_all only:)
  with c show ?thesis
    by (intro exI [of _ m] conjI)
qed

text \<open>
  The claim as first stated fails when the caller supplies \<^verbatim>\<open>separator\<close> too: with
  \<^verbatim>\<open>{"sep": ";", "separator": ","}\<close> the writer does not receive \<^verbatim>\<open>";"\<close> under
  \<^verbatim>\<open>separator\<close>.
\<close>

theorem sep_value_overridden_counterexample:
  "both_options ''sep'' = Some '';'' \<and>
   libcall_kwargs (last (calls (snd
      (compatible_write_csv demo_lib 1 ''out.csv'' both_options demo_state)))) ''separator''
     \<noteq> Some '';''"
  by (subst write_csv_polars [OF lookup_demo_state(2)])
     (simp add: Let_def both_options_def calls_demo_state map_add_def)

text \<open>The scenario in full: the writer receives \<^verbatim>\<open>{"separator": ";"}\<close> and nothing else.\<close>

lemma polars_write_scenario:
  "calls (snd (compatible_write_csv demo_lib 1 ''out.csv'' demo_options demo_state)) =
     [WriteCsv [(''x'', [1, 2, 3])] ''out.csv'' [''separator'' \<mapsto> '';'']]"
  by (subst write_csv_polars [OF lookup_demo_state(2)])
     (simp add: Let_def demo_options_def calls_demo_state map_add_def fun_eq_iff)

text \<open>
  C9. When the caller's options hold both \<^verbatim>\<open>sep\<close> (value \<open>x\<close>) and \<^verbatim>\<open>separator\<close> (value
  \<open>y\<close>), \<^verbatim>\<open>separator\<close> is bound by the last write. For every options map the polars
  branch is the statements before the update, then the update, then the call of the
  writer. Here the statements before the update leave \<open>polars_kwargs\<close> holding exactly
  \<^verbatim>\<open>separator\<close> with the value \<open>x\<close> of \<^verbatim>\<open>sep\<close> (the first write), while \<open>kwargs\<close> still
  holds the caller's \<^verbatim>\<open>separator\<close>; the update then writes the caller's remaining options
  over it (the second write), and the writer receives that map, in which \<^verbatim>\<open>separator\<close>
  has the caller's value \<open>y\<close>.
\<close>

theorem explicit_separator_wins:
  assumes "lookup s df = Some (PlDataFrame g)"
    and "kw ''sep'' = Some x" and "kw ''separator'' = Some y"
  shows "(\<forall>kw'. compatible_write_csv L df filepath kw' s =
            py_bind (polars_kwargs_before_update (length (heap s))) (\<lambda>polars_kwargs.
            py_bind (dict_update polars_kwargs (length (heap s))) (\<lambda>_.
            py_bind (deref_dict polars_kwargs) (\<lambda>m.
            lib_call (WriteCsv g filepath m) (df_write_csv L g filepath m))))
              (s\<lparr>heap := heap s @ [PyDict kw']\<rparr>)) \<and>
         polars_kwargs_before_update (length (heap s)) (s\<lparr>heap := heap s @ [PyDict kw]\<rparr>) =
           (Inr (Suc (length (heap s))),
            s\<lparr>heap := heap s @ [PyDict (kw(''sep'' := None, ''index'' := None)),
                                 PyDict [''separator'' \<mapsto> x]]\<rparr>) \<and>
         (kw(''sep'' := None, ''index'' := None)) ''separator'' = Some y \<and>
         dict_update (Suc (length (heap s))) (length (heap s))
           (s\<lparr>heap := heap s @ [PyDict (kw(''sep'' := None, ''index'' := None)),
                                PyDict [''separator'' \<mapsto> x]]\<rparr>) =
           (Inr (),
            s\<lparr>heap := heap s @ [PyDict (kw(''sep'' := None, ''index'' := None)),
                                 PyDict ([''separator'' \<mapsto> x] ++
                                         kw(''sep'' := None, ''index'' := None))]\<rparr>) \<and>
         calls (snd (compatible_write_csv L df filepath kw s)) =
           calls s @ [WriteCsv g filepath
                        ([''separator'' \<mapsto> x] ++ kw(''sep'' := None, ''index'' := None))] \<and>
         ([''separator'' \<mapsto> x] ++ kw(''sep'' := None, ''index'' := None)) ''separator'' = Some y"
proof (intro conjI allI)
  fix kw'
  show "compatible_write_csv L df filepath kw' s =
            py_bind (polars_kwargs_before_update (length (heap s))) (\<lambda>polars_kwargs.
            py_bind (dict_update polars_kwargs (length (heap s))) (\<lambda>_.
            py_bind (deref_dict polars_kwargs) (\<lambda>m.
            lib_call (WriteCsv g filepath m) (df_write_csv L g filepath m))))
              (s\<lparr>heap := heap s @ [PyDict kw']\<rparr>)"
    by (rule write_csv_polars_stages [OF assms(1)])
next
  show "polars_kwargs_before_update (length (heap s)) (s\<lparr>heap := heap s @ [PyDict kw]\<rparr>) =
           (Inr (Suc (length (heap s))),
            s\<lparr>heap := heap s @ [PyDict (kw(''sep'' := None, ''index'' := None)),
                                 PyDict [''separator'' \<mapsto> x]]\<rparr>)"
    using assms(2) by (rule before_update_both)
next
  show "(kw(''sep'' := None, ''index'' := None)) ''separator'' = Some y"
    using assms(3) by simp
next
  show "dict_update (Suc (length (heap s))) (length (heap s))
           (s\<lparr>heap := heap s @ [PyDict (kw(''sep'' := None, ''index'' := None)),
                                PyDict [''separator'' \<mapsto> x]]\<rparr>) =
           (Inr (),
            s\<lparr>heap := heap s @ [PyDict (kw(''sep'' := None, ''index'' := None)),
                                 PyDict ([''separator'' \<mapsto> x] ++
                                         kw(''sep'' := None, ''index'' := None))]\<rparr>)"
    by (rule update_after_first_stage)
next
  show "calls (snd (compatible_write_csv L df filepath kw s)) =
           calls s @ [WriteCsv g filepath
                        ([''separator'' \<mapsto> x] ++ kw(''sep'' := None, ''index'' := None))]"
    using assms(2) by (simp add: write_csv_polars [OF assms(1)] Let_def)
next
  show "([''separator'' \<mapsto> x] ++ kw(''sep'' := None, ''index'' := None)) ''separator'' = Some y"
    using assms(3) by (simp add: map_add_def)
qed

text \<open>
  The run on \<^verbatim>\<open>{"sep": ";", "separator": ","}\<close>: \<open>kwargs\<close> is the object at address 5,
  \<open>polars_kwargs\<close> the one at address 6.
\<close>

theorem explicit_separator_wins_witness:
  "polars_kwargs_before_update 5 (demo_state\<lparr>heap := heap demo_state @ [PyDict both_options]\<rparr>) =
     (Inr 6,
      demo_state\<lparr>heap := heap demo_state @
                   [PyDict (both_options(''sep'' := None, ''index'' := None)),
                    PyDict [''separator'' \<mapsto> '';'']]\<rparr>) \<and>
   calls (snd (compatible_write_csv demo_lib 1 ''out.csv'' both_options demo_state)) =
     [WriteCsv [(''x'', [1, 2, 3])] ''out.csv''
        ([''separator'' \<mapsto> '';''] ++ both_options(''sep'' := None, ''index'' := None))] \<and>
   ([''separator'' \<mapsto> '';''] ++ both_options(''sep'' := None, ''index'' := None)) ''separator''
     = Some '',''"
proof -
  have opts: "both_options ''sep'' = Some '';''" "both_options ''separator'' = Some '',''"
    by (simp_all add: both_options_def)
  have len: "length (heap demo_state) = 5"
    by (simp add: demo_state_def)
  note run = explicit_separator_wins [OF lookup_demo_state(2) opts, of demo_lib "''out.csv''"]
  have "polars_kwargs_before_update 5
          (demo_state\<lparr>heap := heap demo_state @ [PyDict both_options]\<rparr>) =
     (Inr 6,
      demo_state\<lparr>heap := heap demo_state @
                   [PyDict (both_options(''sep'' := None, ''index'' := None)),
                    PyDict [''separator'' \<mapsto> '';'']]\<rparr>)"
    using run [THEN conjunct2, THEN conjunct1] by (simp add: len)
  moreover have
    "calls (snd (compatible_write_csv demo_lib 1 ''out.csv'' both_options demo_state)) =
     [WriteCsv [(''x'', [1, 2, 3])] ''out.csv''
        ([''separator'' \<mapsto> '';''] ++ both_options(''sep'' := None, ''index'' := None))]"
    using run [THEN conjunct2, THEN conjunct2, THEN conjunct2, THEN conjunct2, THEN conjunct1]
    by (simp only: calls_demo_state append_Nil)
  moreover have
    "([''separator'' \<mapsto> '';''] ++ both_options(''sep'' := None, ''index'' := None)) ''separator''
       = Some '',''"
    by (rule run [THEN conjunct2, THEN conjunct2, THEN conjunct2, THEN conjunct2, THEN conjunct2])
  ultimately show ?thesis
    by (intro conjI)
qed

text \<open>
  C10. A call of \<open>compatible_write_csv\<close> changes no object that existed before it: every
  address that held an object holds the same object afterwards, whatever the frame, path
  and options. In particular a dictionary the caller unpacked into the call still has all
  its keys; the keys removed for polars are removed from the dictionary created for the
  call.
\<close>

theorem write_csv_leaves_callers_objects:
  assumes "lookup s a = Some v"
  shows "lookup (snd (compatible_write_csv L df filepath kw s)) a = Some v"
proof -
  obtain xs where "heap (snd (compatible_write_csv L df filepath kw s)) = heap s @ xs"
    using write_csv_heap_extends by blast
  with assms show ?thesis
    by (auto simp: lookup_def nth_append split: if_splits)
qed

theorem write_csv_leaves_callers_objects_witness:
  "lookup (snd (compatible_write_csv demo_lib 1 ''out.csv'' demo_options demo_state)) 4 =
     Some (PyDict demo_options) \<and>
   demo_options ''sep'' = Some '';'' \<and> demo_options ''index'' = Some ''False''"
  using write_csv_leaves_callers_objects
          [OF lookup_demo_state(5), of demo_lib 1 "''out.csv''" demo_options]
  by (simp add: demo_options_def)

end
